theory Spec2Isabelle
  imports Complex_Main
begin

section \<open>Values shared with the host\<close>

text \<open>
  The program is one Go file, \<^verbatim>\<open>main.go\<close>. It talks to three things it does not
  define: the browser (package \<^verbatim>\<open>syscall/js\<close>), the WebGL binding (package
  \<^verbatim>\<open>webgl\<close>) and the random source (package \<^verbatim>\<open>math/rand\<close>). The model keeps the
  program's own control flow and arithmetic, records every call the program makes to
  these packages in a trace, and takes what the packages answer from an environment.

  A \<^verbatim>\<open>js.Value\<close> is either the zero value \<^verbatim>\<open>js.Value{}\<close>, which stands for
  JavaScript's \<^verbatim>\<open>undefined\<close>, or \<^verbatim>\<open>null\<close>, or a reference to an object of the host.
\<close>

datatype js_Value = js_undefined | js_null | js_object nat

text \<open>
  The constants of package \<^verbatim>\<open>webgl\<close> that \<^verbatim>\<open>main.go\<close> names. Their numeric values
  belong to the binding, not to this program; only their identity is used.
\<close>

datatype GLenum =
    VERTEX_SHADER
  | FRAGMENT_SHADER
  | COMPILE_STATUS
  | LINK_STATUS
  | ARRAY_BUFFER
  | COLOR_BUFFER_BIT
  | FLOAT
  | TRIANGLES
  | STATIC_DRAW

section \<open>The shaders\<close>

definition TAB :: string where
  "TAB = [CHR 0x09]"

definition NL :: string where
  "NL = [CHR 0x0A]"

text \<open>The vertex shader source, lines 15 to 33, character by character.\<close>

definition vertCode :: string where
  "vertCode = concat [
     NL,
     TAB, ''// an attribute will receive data from a buffer'', NL,
     TAB, ''attribute vec2 a_position;'', NL,
     NL,
     TAB, ''uniform vec2 u_resolution;'', NL,
     NL,
     TAB, ''// all shaders have a main function'', NL,
     TAB, ''void main() {'', NL,
     TAB, TAB, ''// convert the position from pixels to 0.0 to 1.0'', NL,
     TAB, TAB, ''vec2 zeroToOne = a_position.xy / u_resolution;'', NL,
     TAB, TAB, NL,
     TAB, TAB, ''// convert from 0->1 to 0->2'', NL,
     TAB, TAB, ''vec2 zeroToTwo = zeroToOne * 2.0;'', NL,
     TAB, TAB, NL,
     TAB, TAB, ''// convert from 0->2 to -1->+1 (clip space)'', NL,
     TAB, TAB, ''vec2 clipSpace = zeroToTwo - 1.0;'', NL,
     TAB, TAB, NL,
     TAB, TAB, ''gl_Position = vec4(clipSpace * vec2(1, -1), 0, 1);'', NL,
     TAB, ''}'']"

text \<open>The fragment shader source, lines 36 to 43.\<close>

definition fragCode :: string where
  "fragCode = concat [
     NL,
     TAB, ''precision mediump float;'', NL,
     TAB, NL,
     TAB, ''uniform vec4 u_color;'', NL,
     NL,
     TAB, ''void main() {'', NL,
     TAB, TAB, ''gl_FragColor = u_color;'', NL,
     TAB, ''}'']"

subsection \<open>What the vertex shader computes\<close>

text \<open>
  The GLSL of \<open>vertCode\<close>, statement by statement. A \<^verbatim>\<open>vec2\<close> is a pair, a
  \<^verbatim>\<open>vec4\<close> a quadruple. Between two vectors \<^verbatim>\<open>/\<close> and \<^verbatim>\<open>*\<close> work component by
  component; between a vector and a scalar the scalar meets every component.
  The definitions only use the operations themselves, so they make sense for any
  number type; the laws of a field enter in the theorem about them.
\<close>

type_synonym 'a vec2 = "'a \<times> 'a"
type_synonym 'a vec4 = "'a \<times> 'a \<times> 'a \<times> 'a"

definition vec2_div :: "'a::inverse vec2 \<Rightarrow> 'a vec2 \<Rightarrow> 'a vec2" where
  "vec2_div a b = (fst a / fst b, snd a / snd b)"

definition vec2_mul :: "'a::times vec2 \<Rightarrow> 'a vec2 \<Rightarrow> 'a vec2" where
  "vec2_mul a b = (fst a * fst b, snd a * snd b)"

definition vec2_mul_scalar :: "'a::times vec2 \<Rightarrow> 'a \<Rightarrow> 'a vec2" where
  "vec2_mul_scalar a s = (fst a * s, snd a * s)"

definition vec2_sub_scalar :: "'a::minus vec2 \<Rightarrow> 'a \<Rightarrow> 'a vec2" where
  "vec2_sub_scalar a s = (fst a - s, snd a - s)"

definition vec4_of_vec2 :: "'a vec2 \<Rightarrow> 'a \<Rightarrow> 'a \<Rightarrow> 'a vec4" where
  "vec4_of_vec2 v z w = (fst v, snd v, z, w)"

text \<open>
  \<^verbatim>\<open>void main()\<close> of the vertex shader: from the attribute \<^verbatim>\<open>a_position\<close> and the
  uniform \<^verbatim>\<open>u_resolution\<close> to \<^verbatim>\<open>gl_Position\<close>.
\<close>

definition vert_main :: "'a::{inverse,times,minus,uminus,zero,one,numeral} vec2 \<Rightarrow> 'a vec2 \<Rightarrow> 'a vec4" where
  "vert_main a_position u_resolution =
     (let zeroToOne = vec2_div a_position u_resolution;
          zeroToTwo = vec2_mul_scalar zeroToOne 2;
          clipSpace = vec2_sub_scalar zeroToTwo 1
      in vec4_of_vec2 (vec2_mul clipSpace (1, - 1)) 0 1)"

text \<open>\<^verbatim>\<open>void main()\<close> of the fragment shader: the pixel gets the uniform colour.\<close>

definition frag_main :: "'a vec4 \<Rightarrow> 'a vec4" where
  "frag_main u_color = u_color"

section \<open>The rectangle\<close>

text \<open>
  The slice literal \<^verbatim>\<open>positionsNative\<close> of \<^verbatim>\<open>setRectangle\<close>, lines 162 to 173. The
  only arithmetic is \<^verbatim>\<open>float32\<close> addition, written \<open>+\<close> on a type that is left open:
  nothing below depends on how the addition rounds.
\<close>

definition positionsNative :: "'f::plus \<Rightarrow> 'f \<Rightarrow> 'f \<Rightarrow> 'f \<Rightarrow> 'f list" where
  "positionsNative x y width height =
     (let x1 = x;
          x2 = x + width;
          y1 = y;
          y2 = y + height
      in [x1, y1,
          x2, y1,
          x1, y2,
          x1, y2,
          x2, y1,
          x2, y2])"

text \<open>
  How the attribute reads the buffer. \<^verbatim>\<open>main\<close> describes the layout with
  \<^verbatim>\<open>pbSize = 2\<close>, \<^verbatim>\<open>pbStride = 0\<close> and \<^verbatim>\<open>pbOffset = 0\<close>: from the start of the buffer,
  two consecutive floats make one vertex. A float left over at the end makes none.
\<close>

fun vertices :: "'f list \<Rightarrow> 'f vec2 list" where
  "vertices (a # b # rest) = (a, b) # vertices rest"
| "vertices [a] = []"
| "vertices [] = []"

text \<open>A Go \<^verbatim>\<open>float32\<close> takes four bytes, so does an element of a \<^verbatim>\<open>Float32Array\<close>.\<close>

definition byteLength :: "'f list \<Rightarrow> nat" where
  "byteLength xs = 4 * length xs"

section \<open>Calls and the trace\<close>

text \<open>
  Every method of the WebGL context that \<^verbatim>\<open>main.go\<close> calls, with the arguments the
  call receives. The type \<open>'f\<close> stands for \<^verbatim>\<open>float32\<close>.
\<close>

datatype 'f gl_call =
    CreateShader GLenum
  | ShaderSource js_Value string
  | CompileShader js_Value
  | GetShaderParameter js_Value GLenum
  | GetShaderInfoLog js_Value
  | DeleteShader js_Value
  | CreateProgram
  | AttachShader js_Value js_Value
  | LinkProgram js_Value
  | GetProgramParameterb js_Value GLenum
  | GetProgramInfoLog js_Value
  | DeleteProgram js_Value
  | GetAttribLocation js_Value string
  | GetUniformLocation js_Value string
  | CreateArrayBuffer
  | BindBuffer GLenum js_Value
  | Viewport int int int int
  | ClearColor 'f 'f 'f 'f
  | Clear GLenum
  | UseProgram js_Value
  | EnableVertexAttribArray int
  | VertexAttribPointer int int GLenum bool int int
  | Uniform2f js_Value 'f 'f
  | Uniform4f js_Value 'f 'f 'f 'f
  | BufferData GLenum "'f list" GLenum
  | DrawArrays GLenum int int

text \<open>
  What the program does to the outside, in the order it does it: the calls on the
  document and the canvas, the creation of the context (with the value of
  \<^verbatim>\<open>attrs.Alpha\<close>, the one attribute changed from the defaults), \<^verbatim>\<open>alert\<close>, the
  built-in \<^verbatim>\<open>println\<close>, and the calls on the context.
\<close>

datatype 'f event =
    GetElementById string
  | SetAttribute string int
  | NewContext bool
  | Alert string
  | Println string
  | GL "'f gl_call"

text \<open>
  The state threaded through the program: the trace so far, oldest event first, and
  the number of values drawn from the random source so far.
\<close>

record 'f world =
  trace :: "'f event list"
  rand_calls :: nat

definition init_world :: "'f world" where
  "init_world = \<lparr>trace = [], rand_calls = 0\<rparr>"

text \<open>
  The environment: everything the packages answer. The size of the canvas and the
  outcome of \<^verbatim>\<open>webgl.NewContext\<close> are fixed for a run. An answer of the context is
  looked up by the number of events before the call, an answer of the random source
  by the number of values drawn before it, so an environment can describe any
  sequence of answers. \<open>float32\<close> is Go's conversion from \<^verbatim>\<open>int\<close>.

  The model takes for granted that the element \<^verbatim>\<open>mycanvas\<close> exists and has a numeric
  client size, and that both status queries answer with a boolean; otherwise
  \<^verbatim>\<open>syscall/js\<close> would panic in \<^verbatim>\<open>Get\<close>, \<^verbatim>\<open>Int\<close> or \<^verbatim>\<open>Bool\<close>.
\<close>

record 'f env =
  clientWidth :: int
  clientHeight :: int
  NewContext_err :: "string option"
  float32 :: "int \<Rightarrow> 'f"
  Intn_ret :: "nat \<Rightarrow> int \<Rightarrow> int"
  Float32_ret :: "nat \<Rightarrow> 'f"
  CreateShader_ret :: "nat \<Rightarrow> js_Value"
  GetShaderParameter_ret :: "nat \<Rightarrow> bool"
  GetShaderInfoLog_ret :: "nat \<Rightarrow> string"
  CreateProgram_ret :: "nat \<Rightarrow> js_Value"
  GetProgramParameterb_ret :: "nat \<Rightarrow> bool"
  GetProgramInfoLog_ret :: "nat \<Rightarrow> string"
  GetAttribLocation_ret :: "nat \<Rightarrow> int"
  GetUniformLocation_ret :: "nat \<Rightarrow> js_Value"
  CreateArrayBuffer_ret :: "nat \<Rightarrow> js_Value"

definition emit :: "'f event \<Rightarrow> 'f world \<Rightarrow> 'f world" where
  "emit e w = w\<lparr>trace := trace w @ [e]\<rparr>"

text \<open>A call on the context that returns nothing.\<close>

definition gl :: "'f gl_call \<Rightarrow> 'f world \<Rightarrow> 'f world" where
  "gl c w = emit (GL c) w"

definition println :: "string \<Rightarrow> 'f world \<Rightarrow> 'f world" where
  "println s w = emit (Println s) w"

text \<open>The calls on the context that return something.\<close>

definition gl_CreateShader :: "'f env \<Rightarrow> GLenum \<Rightarrow> 'f world \<Rightarrow> js_Value \<times> 'f world" where
  "gl_CreateShader env shaderType w =
     (CreateShader_ret env (length (trace w)), gl (CreateShader shaderType) w)"

definition gl_GetShaderParameter :: "'f env \<Rightarrow> js_Value \<Rightarrow> GLenum \<Rightarrow> 'f world \<Rightarrow> bool \<times> 'f world" where
  "gl_GetShaderParameter env shader pname w =
     (GetShaderParameter_ret env (length (trace w)), gl (GetShaderParameter shader pname) w)"

definition gl_GetShaderInfoLog :: "'f env \<Rightarrow> js_Value \<Rightarrow> 'f world \<Rightarrow> string \<times> 'f world" where
  "gl_GetShaderInfoLog env shader w =
     (GetShaderInfoLog_ret env (length (trace w)), gl (GetShaderInfoLog shader) w)"

definition gl_CreateProgram :: "'f env \<Rightarrow> 'f world \<Rightarrow> js_Value \<times> 'f world" where
  "gl_CreateProgram env w =
     (CreateProgram_ret env (length (trace w)), gl CreateProgram w)"

definition gl_GetProgramParameterb :: "'f env \<Rightarrow> js_Value \<Rightarrow> GLenum \<Rightarrow> 'f world \<Rightarrow> bool \<times> 'f world" where
  "gl_GetProgramParameterb env program pname w =
     (GetProgramParameterb_ret env (length (trace w)), gl (GetProgramParameterb program pname) w)"

definition gl_GetProgramInfoLog :: "'f env \<Rightarrow> js_Value \<Rightarrow> 'f world \<Rightarrow> string \<times> 'f world" where
  "gl_GetProgramInfoLog env program w =
     (GetProgramInfoLog_ret env (length (trace w)), gl (GetProgramInfoLog program) w)"

definition gl_GetAttribLocation :: "'f env \<Rightarrow> js_Value \<Rightarrow> string \<Rightarrow> 'f world \<Rightarrow> int \<times> 'f world" where
  "gl_GetAttribLocation env program name w =
     (GetAttribLocation_ret env (length (trace w)), gl (GetAttribLocation program name) w)"

definition gl_GetUniformLocation :: "'f env \<Rightarrow> js_Value \<Rightarrow> string \<Rightarrow> 'f world \<Rightarrow> js_Value \<times> 'f world" where
  "gl_GetUniformLocation env program name w =
     (GetUniformLocation_ret env (length (trace w)), gl (GetUniformLocation program name) w)"

definition gl_CreateArrayBuffer :: "'f env \<Rightarrow> 'f world \<Rightarrow> js_Value \<times> 'f world" where
  "gl_CreateArrayBuffer env w =
     (CreateArrayBuffer_ret env (length (trace w)), gl CreateArrayBuffer w)"

text \<open>
  The random source. \<^verbatim>\<open>rand.Intn\<close> panics when its argument is not positive; the
  program only ever passes 300.
\<close>

definition rand_Intn :: "'f env \<Rightarrow> int \<Rightarrow> 'f world \<Rightarrow> int \<times> 'f world" where
  "rand_Intn env n w = (Intn_ret env (rand_calls w) n, w\<lparr>rand_calls := rand_calls w + 1\<rparr>)"

definition rand_Float32 :: "'f env \<Rightarrow> 'f world \<Rightarrow> 'f \<times> 'f world" where
  "rand_Float32 env w = (Float32_ret env (rand_calls w), w\<lparr>rand_calls := rand_calls w + 1\<rparr>)"

section \<open>The program\<close>

text \<open>\<^verbatim>\<open>createShader\<close>, lines 133 to 144.\<close>

definition createShader :: "'f env \<Rightarrow> GLenum \<Rightarrow> string \<Rightarrow> 'f world \<Rightarrow> js_Value \<times> 'f world" where
  "createShader env shaderType source w =
     (let (shader, w) = gl_CreateShader env shaderType w;
          w = gl (ShaderSource shader source) w;
          w = gl (CompileShader shader) w;
          (success, w) = gl_GetShaderParameter env shader COMPILE_STATUS w
      in if success then (shader, w)
         else (let (infoLog, w) = gl_GetShaderInfoLog env shader w;
                   w = println infoLog w;
                   w = gl (DeleteShader shader) w
               in (js_undefined, w)))"

text \<open>\<^verbatim>\<open>createProgram\<close>, lines 146 to 158.\<close>

definition createProgram :: "'f env \<Rightarrow> js_Value \<Rightarrow> js_Value \<Rightarrow> 'f world \<Rightarrow> js_Value \<times> 'f world" where
  "createProgram env vertexShader fragmentShader w =
     (let (program, w) = gl_CreateProgram env w;
          w = gl (AttachShader program vertexShader) w;
          w = gl (AttachShader program fragmentShader) w;
          w = gl (LinkProgram program) w;
          (success, w) = gl_GetProgramParameterb env program LINK_STATUS w
      in if success then (program, w)
         else (let (infoLog, w) = gl_GetProgramInfoLog env program w;
                   w = println infoLog w;
                   w = gl (DeleteProgram program) w
               in (js_undefined, w)))"

text \<open>
  \<^verbatim>\<open>setRectangle\<close>, lines 161 to 176. \<^verbatim>\<open>webgl.SliceToTypedArray\<close> hands the same
  floats over as a \<^verbatim>\<open>Float32Array\<close>.
\<close>

definition SliceToTypedArray :: "'f list \<Rightarrow> 'f list" where
  "SliceToTypedArray xs = xs"

definition setRectangle :: "'f::plus \<Rightarrow> 'f \<Rightarrow> 'f \<Rightarrow> 'f \<Rightarrow> 'f world \<Rightarrow> 'f world" where
  "setRectangle x y width height w =
     (let positions = SliceToTypedArray (positionsNative x y width height)
      in gl (BufferData ARRAY_BUFFER positions STATIC_DRAW) w)"

text \<open>
  The body of the loop, lines 116 to 129. Go evaluates the calls among the arguments
  of a call from left to right, so the four \<^verbatim>\<open>rand.Intn\<close> are drawn in the order x, y,
  width, height, and the three \<^verbatim>\<open>rand.Float32\<close> in the order red, green, blue.
\<close>

definition loop_body :: "'f::{one,plus} env \<Rightarrow> js_Value \<Rightarrow> 'f world \<Rightarrow> 'f world" where
  "loop_body env colorUniformLocation w =
     (let (x, w) = rand_Intn env 300 w;
          (y, w) = rand_Intn env 300 w;
          (width, w) = rand_Intn env 300 w;
          (height, w) = rand_Intn env 300 w;
          w = setRectangle (float32 env x) (float32 env y) (float32 env width) (float32 env height) w;
          (r, w) = rand_Float32 env w;
          (g, w) = rand_Float32 env w;
          (b, w) = rand_Float32 env w;
          w = gl (Uniform4f colorUniformLocation r g b 1) w;
          primType = TRIANGLES;
          primOffset = 0;
          primCount = 6
      in gl (DrawArrays primType primOffset primCount) w)"

text \<open>\<^verbatim>\<open>for i := 0; i < 50; i++\<close>, line 115, entered with the current \<open>i\<close>.\<close>

function main_loop :: "'f::{one,plus} env \<Rightarrow> js_Value \<Rightarrow> int \<Rightarrow> 'f world \<Rightarrow> 'f world" where
  "main_loop env colorUniformLocation i w =
     (if i < 50 then main_loop env colorUniformLocation (i + 1) (loop_body env colorUniformLocation w)
      else w)"
  by pat_completeness auto
termination
  by (relation "measure (\<lambda>(env, colorUniformLocation, i, w). nat (50 - i))") auto

declare main_loop.simps [simp del]

text \<open>\<^verbatim>\<open>main\<close>, lines 46 to 131.\<close>

definition main :: "'f::{zero,one,plus} env \<Rightarrow> 'f world" where
  "main env =
     (let w = emit (GetElementById ''mycanvas'') init_world;
          width = clientWidth env;
          height = clientHeight env;
          w = emit (SetAttribute ''width'' width) w;
          w = emit (SetAttribute ''height'' height) w;
          w = emit (NewContext False) w
      in case NewContext_err env of
           Some err \<Rightarrow> emit (Alert (''Error: '' @ err)) w
         | None \<Rightarrow>
            (let (vertexShader, w) = createShader env VERTEX_SHADER vertCode w;
                 (fragmentShader, w) = createShader env FRAGMENT_SHADER fragCode w;
                 (program, w) = createProgram env vertexShader fragmentShader w;
                 (positionAttributeLocation, w) = gl_GetAttribLocation env program ''a_position'' w;
                 (resolutionUniformLocation, w) = gl_GetUniformLocation env program ''u_resolution'' w;
                 (colorUniformLocation, w) = gl_GetUniformLocation env program ''u_color'' w;
                 (positionBuffer, w) = gl_CreateArrayBuffer env w;
                 w = gl (BindBuffer ARRAY_BUFFER positionBuffer) w;
                 w = gl (Viewport 0 0 width height) w;
                 w = gl (ClearColor 0 0 0 0) w;
                 w = gl (Clear COLOR_BUFFER_BIT) w;
                 w = gl (UseProgram program) w;
                 w = gl (EnableVertexAttribArray positionAttributeLocation) w;
                 w = gl (BindBuffer ARRAY_BUFFER positionBuffer) w;
                 pbSize = 2;
                 pbType = FLOAT;
                 pbNormalize = False;
                 pbStride = 0;
                 pbOffset = 0;
                 w = gl (VertexAttribPointer positionAttributeLocation pbSize pbType pbNormalize pbStride pbOffset) w;
                 w = gl (Uniform2f resolutionUniformLocation (float32 env width) (float32 env height)) w
             in main_loop env colorUniformLocation 0 w))"

section \<open>Reading a trace\<close>

text \<open>The calls on the context among the events of a trace, in order.\<close>

fun gl_calls :: "'f event list \<Rightarrow> 'f gl_call list" where
  "gl_calls [] = []"
| "gl_calls (GL c # es) = c # gl_calls es"
| "gl_calls (e # es) = gl_calls es"

fun is_DrawArrays :: "'f gl_call \<Rightarrow> bool" where
  "is_DrawArrays (DrawArrays primType primOffset primCount) = True"
| "is_DrawArrays c = False"

fun is_BufferData :: "'f gl_call \<Rightarrow> bool" where
  "is_BufferData (BufferData target dat usage) = True"
| "is_BufferData c = False"

fun is_Uniform2f :: "'f gl_call \<Rightarrow> bool" where
  "is_Uniform2f (Uniform2f location v0 v1) = True"
| "is_Uniform2f c = False"

fun is_Uniform4f :: "'f gl_call \<Rightarrow> bool" where
  "is_Uniform4f (Uniform4f location v0 v1 v2 v3) = True"
| "is_Uniform4f c = False"

text \<open>
  The calls that write a uniform, fill a buffer or draw: the ones the loop makes.
\<close>

definition is_render_call :: "'f gl_call \<Rightarrow> bool" where
  "is_render_call c = (is_BufferData c \<or> is_Uniform2f c \<or> is_Uniform4f c \<or> is_DrawArrays c)"

text \<open>
  One pass through the loop draws seven random values. Pass \<open>k\<close>, counted from 0,
  draws the values number \<open>7 * k\<close> to \<open>7 * k + 6\<close> of the run: four integers for the
  rectangle, then three floats for the colour.
\<close>

definition rect_params :: "'f env \<Rightarrow> nat \<Rightarrow> int \<times> int \<times> int \<times> int" where
  "rect_params env k =
     (Intn_ret env (7 * k) 300, Intn_ret env (7 * k + 1) 300,
      Intn_ret env (7 * k + 2) 300, Intn_ret env (7 * k + 3) 300)"

definition color_params :: "'f env \<Rightarrow> nat \<Rightarrow> 'f \<times> 'f \<times> 'f" where
  "color_params env k =
     (Float32_ret env (7 * k + 4), Float32_ret env (7 * k + 5), Float32_ret env (7 * k + 6))"

definition rect_positions :: "'f::plus env \<Rightarrow> nat \<Rightarrow> 'f list" where
  "rect_positions env k =
     (case rect_params env k of (x, y, width, height) \<Rightarrow>
        positionsNative (float32 env x) (float32 env y) (float32 env width) (float32 env height))"

definition rect_upload :: "'f::plus env \<Rightarrow> nat \<Rightarrow> 'f gl_call" where
  "rect_upload env k = BufferData ARRAY_BUFFER (rect_positions env k) STATIC_DRAW"

definition color_write :: "'f::one env \<Rightarrow> js_Value \<Rightarrow> nat \<Rightarrow> 'f gl_call" where
  "color_write env location k =
     (case color_params env k of (r, g, b) \<Rightarrow> Uniform4f location r g b 1)"

definition iteration_calls :: "'f::{one,plus} env \<Rightarrow> js_Value \<Rightarrow> nat \<Rightarrow> 'f gl_call list" where
  "iteration_calls env location k =
     [rect_upload env k, color_write env location k, DrawArrays TRIANGLES 0 6]"

text \<open>
  What the documentation of \<^verbatim>\<open>math/rand\<close> promises: \<^verbatim>\<open>Intn(n)\<close> lies in \<open>[0, n)\<close>
  for a positive \<open>n\<close>, \<^verbatim>\<open>Float32()\<close> lies in \<open>[0.0, 1.0)\<close>.
\<close>

definition Intn_ok :: "'f env \<Rightarrow> bool" where
  "Intn_ok env = (\<forall>k n. 0 < n \<longrightarrow> 0 \<le> Intn_ret env k n \<and> Intn_ret env k n < n)"


section \<open>The buffer behind the binding point\<close>

text \<open>
  The part of the WebGL state that \<^verbatim>\<open>setRectangle\<close> writes, as the WebGL
  specification describes it: \<^verbatim>\<open>bindBuffer\<close> makes a buffer the current one of a
  binding point; \<^verbatim>\<open>bufferData\<close> gives the current buffer of the binding point a new
  data store holding the data passed, together with the usage hint, and drops the
  store it had; with no buffer bound it is an error and changes nothing.
\<close>

record 'f gl_state =
  array_buffer_binding :: js_Value
  buffer_store :: "nat \<Rightarrow> ('f list \<times> GLenum) option"

definition gl_state0 :: "'f gl_state" where
  "gl_state0 = \<lparr>array_buffer_binding = js_null, buffer_store = (\<lambda>b. None)\<rparr>"

fun gl_exec :: "'f gl_state \<Rightarrow> 'f gl_call \<Rightarrow> 'f gl_state" where
  "gl_exec s (BindBuffer target buffer) =
     (if target = ARRAY_BUFFER then s\<lparr>array_buffer_binding := buffer\<rparr> else s)"
| "gl_exec s (BufferData target dat usage) =
     (if target = ARRAY_BUFFER then
        (case array_buffer_binding s of
           js_object b \<Rightarrow> s\<lparr>buffer_store := (buffer_store s)(b := Some (dat, usage))\<rparr>
         | js_null \<Rightarrow> s
         | js_undefined \<Rightarrow> s)
      else s)"
| "gl_exec s c = s"

definition gl_state_after :: "'f event list \<Rightarrow> 'f gl_state" where
  "gl_state_after t = foldl gl_exec gl_state0 (gl_calls t)"

section \<open>Sample environments\<close>

text \<open>
  A run in which everything succeeds, on a canvas of 300 by 150 pixels. The context
  numbers its objects by the event that created them.
\<close>

definition env_ok :: "real env" where
  "env_ok =
     \<lparr>clientWidth = 300,
      clientHeight = 150,
      NewContext_err = None,
      float32 = of_int,
      Intn_ret = (\<lambda>k n. (37 * int k) mod n),
      Float32_ret = (\<lambda>k. of_nat (k mod 8) / 8),
      CreateShader_ret = js_object,
      GetShaderParameter_ret = (\<lambda>t. True),
      GetShaderInfoLog_ret = (\<lambda>t. []),
      CreateProgram_ret = js_object,
      GetProgramParameterb_ret = (\<lambda>t. True),
      GetProgramInfoLog_ret = (\<lambda>t. []),
      GetAttribLocation_ret = (\<lambda>t. 0),
      GetUniformLocation_ret = js_object,
      CreateArrayBuffer_ret = js_object\<rparr>"

text \<open>The same run on a host that cannot give a WebGL context.\<close>

definition env_no_context :: "real env" where
  "env_no_context = env_ok\<lparr>NewContext_err := Some ''no webgl''\<rparr>"

text \<open>The same run on a host whose compiler rejects every shader.\<close>

definition env_bad_shader :: "real env" where
  "env_bad_shader =
     env_ok\<lparr>GetShaderParameter_ret := (\<lambda>t. False),
            GetShaderInfoLog_ret := (\<lambda>t. ''ERROR: 0:1: syntax error'')\<rparr>"

text \<open>
  A random source that answers as the one of \<open>env\<close> does, except that the draw number
  \<open>d\<close> of every pass through the loop is 0 (\<open>d = 2\<close> is the width, \<open>d = 3\<close> the height).
\<close>

definition zero_draw :: "nat \<Rightarrow> 'f env \<Rightarrow> 'f env" where
  "zero_draw d env = env\<lparr>Intn_ret := (\<lambda>k n. if k mod 7 = d then 0 else Intn_ret env k n)\<rparr>"

text \<open>
  A world in which buffer 1 is bound and already holds fourteen floats.
\<close>

definition world_used_buffer :: "real world" where
  "world_used_buffer =
     gl (BufferData ARRAY_BUFFER (replicate 14 9) STATIC_DRAW)
       (gl (BindBuffer ARRAY_BUFFER (js_object 1)) init_world)"

section \<open>Basic facts about the trace\<close>

lemma trace_emit [simp]: "trace (emit e w) = trace w @ [e]"
  by (simp add: emit_def)

lemma rand_calls_emit [simp]: "rand_calls (emit e w) = rand_calls w"
  by (simp add: emit_def)

lemma trace_gl [simp]: "trace (gl c w) = trace w @ [GL c]"
  by (simp add: gl_def)

lemma rand_calls_gl [simp]: "rand_calls (gl c w) = rand_calls w"
  by (simp add: gl_def)

lemma trace_println [simp]: "trace (println s w) = trace w @ [Println s]"
  by (simp add: println_def)

lemma rand_calls_println [simp]: "rand_calls (println s w) = rand_calls w"
  by (simp add: println_def)

lemma gl_calls_append [simp]: "gl_calls (xs @ ys) = gl_calls xs @ gl_calls ys"
  by (induction xs rule: gl_calls.induct) simp_all

lemma gl_calls_map_GL [simp]: "gl_calls (map GL cs) = cs"
  by (induction cs) simp_all

lemmas gl_ret_defs =
  gl_CreateShader_def gl_GetShaderParameter_def gl_GetShaderInfoLog_def gl_CreateProgram_def
  gl_GetProgramParameterb_def gl_GetProgramInfoLog_def gl_GetAttribLocation_def
  gl_GetUniformLocation_def gl_CreateArrayBuffer_def

section \<open>The rectangle's vertices\<close>

text \<open>
  C1. For every rectangle \<open>(x, y, width, height)\<close>, \<^verbatim>\<open>setRectangle\<close> makes one call,
  the upload of twelve floats that depend on its four arguments only and that read,
  two by two, as the six vertices \<open>(x,y)\<close>, \<open>(x+w,y)\<close>, \<open>(x,y+h)\<close>, \<open>(x,y+h)\<close>,
  \<open>(x+w,y)\<close>, \<open>(x+w,y+h)\<close>, in this order. The sums are whatever the addition of
  the number type gives, so the statement covers \<^verbatim>\<open>float32\<close> addition as it is.
\<close>

theorem setRectangle_six_vertices:
  "(\<exists>positions.
      trace (setRectangle x y width height wld) =
        trace wld @ [GL (BufferData ARRAY_BUFFER positions STATIC_DRAW)] \<and>
      positions = positionsNative x y width height \<and>
      vertices positions =
        [(x, y), (x + width, y), (x, y + height),
         (x, y + height), (x + width, y), (x + width, y + height)]) \<and>
   rand_calls (setRectangle x y width height wld) = rand_calls wld"
  by (simp add: setRectangle_def SliceToTypedArray_def positionsNative_def Let_def)

section \<open>The clip-space transform\<close>

text \<open>
  C2. For a resolution \<open>(W, H)\<close> with \<open>W\<close> and \<open>H\<close> not zero and a pixel point
  \<open>(px, py)\<close>, the vertex shader puts the vertex at
  \<open>(2 * px / W - 1, 1 - 2 * py / H)\<close>, with \<open>z = 0\<close> and \<open>w = 1\<close>. The arithmetic is
  exact arithmetic, that of any field; the rounding of the GPU is not part of the
  statement.
\<close>

theorem vert_main_clip_space:
  fixes px py W H :: "'a::field"
  assumes "W \<noteq> 0" and "H \<noteq> 0"
  shows "vert_main (px, py) (W, H) = (2 * px / W - 1, 1 - 2 * py / H, 0, 1)"
  by (simp add: vert_main_def vec2_div_def vec2_mul_scalar_def vec2_sub_scalar_def
      vec2_mul_def vec4_of_vec2_def Let_def algebra_simps)

text \<open>
  The scenario of the specification: at resolution 300 by 150, the pixel \<open>(0, 0)\<close>,
  first vertex of the rectangle \<open>(0, 0, 10, 10)\<close>, goes to the clip-space point
  \<open>(-1, 1)\<close>.
\<close>

theorem vert_main_clip_space_witness:
  "(300::real) \<noteq> 0 \<and> (150::real) \<noteq> 0 \<and>
   vert_main (0, 0) (300, 150 :: real) = (- 1, 1, 0, 1)"
  using vert_main_clip_space [of "300::real" "150::real" 0 0] by simp

section \<open>The trace of the loop\<close>

text \<open>Pass \<open>k\<close> of the loop adds its three calls and draws seven random values.\<close>

lemma trace_loop_body:
  "rand_calls w = 7 * k \<Longrightarrow>
   trace (loop_body env cl w) = trace w @ map GL (iteration_calls env cl k)"
  by (simp add: loop_body_def rand_Intn_def rand_Float32_def setRectangle_def
      SliceToTypedArray_def Let_def iteration_calls_def rect_upload_def rect_positions_def color_write_def
      rect_params_def color_params_def eval_nat_numeral)

lemma rand_calls_loop_body: "rand_calls (loop_body env cl w) = rand_calls w + 7"
  by (simp add: loop_body_def rand_Intn_def rand_Float32_def setRectangle_def Let_def)

lemma trace_main_loop:
  "rand_calls w = 7 * j \<Longrightarrow>
   trace (main_loop env cl i w) =
     trace w @ concat (map (\<lambda>k. map GL (iteration_calls env cl k)) [j ..< j + nat (50 - i)])"
proof (induction env cl i w arbitrary: j rule: main_loop.induct)
  case (1 env cl i w)
  show ?case
  proof (cases "i < 50")
    case True
    have rc: "rand_calls (loop_body env cl w) = 7 * Suc j"
      using "1.prems" by (simp add: rand_calls_loop_body)
    have n: "j + nat (50 - i) = Suc j + nat (50 - (i + 1))"
      using True by simp
    have "trace (main_loop env cl i w) = trace (main_loop env cl (i + 1) (loop_body env cl w))"
      using True by (simp add: main_loop.simps [of env cl i w])
    also have "\<dots> = trace (loop_body env cl w) @
        concat (map (\<lambda>k. map GL (iteration_calls env cl k)) [Suc j ..< Suc j + nat (50 - (i + 1))])"
      using "1.IH" [OF True rc] .
    also have "\<dots> = trace w @
        concat (map (\<lambda>k. map GL (iteration_calls env cl k)) (j # [Suc j ..< Suc j + nat (50 - (i + 1))]))"
      using "1.prems" by (simp add: trace_loop_body)
    also have "j # [Suc j ..< Suc j + nat (50 - (i + 1))] = [j ..< j + nat (50 - i)]"
      unfolding n by (simp add: upt_conv_Cons)
    finally show ?thesis .
  next
    case False
    then show ?thesis by (simp add: main_loop.simps [of env cl i w])
  qed
qed

section \<open>The trace of a run\<close>

text \<open>Compiling and linking draw no random value and make none of the loop's calls.\<close>

lemma rand_calls_createShader [simp]:
  "rand_calls (snd (createShader env ty src w)) = rand_calls w"
  by (simp add: createShader_def gl_ret_defs Let_def)

lemma render_createShader [simp]:
  "filter is_render_call (gl_calls (trace (snd (createShader env ty src w)))) =
   filter is_render_call (gl_calls (trace w))"
  by (simp add: createShader_def gl_ret_defs Let_def is_render_call_def)

lemma rand_calls_createProgram [simp]:
  "rand_calls (snd (createProgram env vs fs w)) = rand_calls w"
  by (simp add: createProgram_def gl_ret_defs Let_def)

lemma render_createProgram [simp]:
  "filter is_render_call (gl_calls (trace (snd (createProgram env vs fs w)))) =
   filter is_render_call (gl_calls (trace w))"
  by (simp add: createProgram_def gl_ret_defs Let_def is_render_call_def)

text \<open>
  A run that gets its context reaches the loop right after writing the resolution,
  with no random value drawn and no other uniform written, buffer filled or
  primitive drawn.
\<close>

lemma main_enters_loop:
  assumes "NewContext_err env = None"
  shows "\<exists>w rl cl.
           main env =
             main_loop env cl 0
               (gl (Uniform2f rl (float32 env (clientWidth env)) (float32 env (clientHeight env))) w) \<and>
           rand_calls w = 0 \<and> filter is_render_call (gl_calls (trace w)) = []"
  using assms
  apply (simp add: main_def Let_def split_def)
  apply (intro exI conjI)
    apply (rule refl)
   apply (simp add: gl_GetAttribLocation_def gl_GetUniformLocation_def gl_CreateArrayBuffer_def init_world_def)
  apply (simp add: gl_GetAttribLocation_def gl_GetUniformLocation_def gl_CreateArrayBuffer_def init_world_def is_render_call_def)
  done

lemma trace_main_loop_0:
  "rand_calls w = 0 \<Longrightarrow>
   trace (main_loop env cl 0 w) =
     trace w @ concat (map (\<lambda>k. map GL (iteration_calls env cl k)) [0..<50])"
  using trace_main_loop [of w 0 env cl 0] by simp

lemma main_trace:
  assumes "NewContext_err env = None"
  shows "\<exists>pre rl cl.
           trace (main env) =
             pre @ [GL (Uniform2f rl (float32 env (clientWidth env)) (float32 env (clientHeight env)))] @
             concat (map (\<lambda>k. map GL (iteration_calls env cl k)) [0..<50]) \<and>
           filter is_render_call (gl_calls pre) = []"
proof -
  from main_enters_loop [OF assms] obtain w rl cl where
    m: "main env = main_loop env cl 0
          (gl (Uniform2f rl (float32 env (clientWidth env)) (float32 env (clientHeight env))) w)" and
    r: "rand_calls w = 0" and f: "filter is_render_call (gl_calls (trace w)) = []"
    by blast
  have "trace (main env) =
      trace w @ [GL (Uniform2f rl (float32 env (clientWidth env)) (float32 env (clientHeight env)))] @
      concat (map (\<lambda>k. map GL (iteration_calls env cl k)) [0..<50])"
    unfolding m using r by (simp add: trace_main_loop_0)
  with f show ?thesis by blast
qed

lemma gl_calls_concat_GL [simp]:
  "gl_calls (concat (map (\<lambda>k. map GL (f k)) ks)) = concat (map f ks)"
  by (induction ks) simp_all

lemma filter_sub:
  "(\<And>x. P x \<Longrightarrow> Q x) \<Longrightarrow> filter P xs = filter P (filter Q xs)"
  by (induction xs) auto

lemma DrawArrays_iterations:
  "filter is_DrawArrays (concat (map (iteration_calls env cl) ks)) =
   map (\<lambda>k. DrawArrays TRIANGLES 0 6) ks"
  by (induction ks) (simp_all add: iteration_calls_def rect_upload_def rect_positions_def color_write_def split: prod.splits)

lemma BufferData_iterations:
  "filter is_BufferData (concat (map (iteration_calls env cl) ks)) = map (rect_upload env) ks"
  by (induction ks) (simp_all add: iteration_calls_def rect_upload_def rect_positions_def color_write_def split: prod.splits)

lemma Uniform4f_iterations:
  "filter is_Uniform4f (concat (map (iteration_calls env cl) ks)) = map (color_write env cl) ks"
  by (induction ks) (simp_all add: iteration_calls_def rect_upload_def rect_positions_def color_write_def split: prod.splits)

lemma Uniform2f_iterations:
  "filter is_Uniform2f (concat (map (iteration_calls env cl) ks)) = []"
  by (induction ks) (simp_all add: iteration_calls_def rect_upload_def rect_positions_def color_write_def split: prod.splits)

text \<open>The calls of a successful run, sorted by kind.\<close>

lemma main_render_calls:
  assumes "NewContext_err env = None"
  shows "\<exists>rl cl.
     filter is_DrawArrays (gl_calls (trace (main env))) = map (\<lambda>k. DrawArrays TRIANGLES 0 6) [0..<50] \<and>
     filter is_BufferData (gl_calls (trace (main env))) = map (rect_upload env) [0..<50] \<and>
     filter is_Uniform4f (gl_calls (trace (main env))) = map (color_write env cl) [0..<50] \<and>
     filter is_Uniform2f (gl_calls (trace (main env))) =
       [Uniform2f rl (float32 env (clientWidth env)) (float32 env (clientHeight env))]"
proof -
  from main_trace [OF assms] obtain pre rl cl where
    t: "trace (main env) =
          pre @ [GL (Uniform2f rl (float32 env (clientWidth env)) (float32 env (clientHeight env)))] @
          concat (map (\<lambda>k. map GL (iteration_calls env cl k)) [0..<50])" and
    f: "filter is_render_call (gl_calls pre) = []"
    by blast
  have d: "filter is_DrawArrays (gl_calls pre) = []"
    using filter_sub [of is_DrawArrays is_render_call "gl_calls pre"] f
    by (simp add: is_render_call_def)
  have b: "filter is_BufferData (gl_calls pre) = []"
    using filter_sub [of is_BufferData is_render_call "gl_calls pre"] f
    by (simp add: is_render_call_def)
  have u4: "filter is_Uniform4f (gl_calls pre) = []"
    using filter_sub [of is_Uniform4f is_render_call "gl_calls pre"] f
    by (simp add: is_render_call_def)
  have u2: "filter is_Uniform2f (gl_calls pre) = []"
    using filter_sub [of is_Uniform2f is_render_call "gl_calls pre"] f
    by (simp add: is_render_call_def)
  show ?thesis
    apply (rule exI [of _ rl], rule exI [of _ cl])
    apply (simp only: t gl_calls_append gl_calls_concat_GL filter_append d b u4 u2
        DrawArrays_iterations BufferData_iterations Uniform4f_iterations Uniform2f_iterations)
    apply simp
    done
qed

text \<open>What \<^verbatim>\<open>main\<close> does with a shader that failed to compile.\<close>

lemma createShader_failed:
  "\<not> GetShaderParameter_ret env (length (trace w) + 3) \<Longrightarrow>
   fst (createShader env ty src w) = js_undefined"
  by (simp add: createShader_def gl_ret_defs Let_def eval_nat_numeral)

lemma createProgram_attaches:
  "GL (AttachShader (CreateProgram_ret env (length (trace w))) vs)
     \<in> set (trace (snd (createProgram env vs fs w)))"
  by (simp add: createProgram_def gl_ret_defs Let_def)

lemma main_attaches_undefined:
  assumes "NewContext_err env = None" and "\<not> GetShaderParameter_ret env 7"
  shows "\<exists>program. GL (AttachShader program js_undefined) \<in> set (trace (main env))"
proof -
  let ?w4 = "emit (NewContext False) (emit (SetAttribute ''height'' (clientHeight env))
      (emit (SetAttribute ''width'' (clientWidth env)) (emit (GetElementById ''mycanvas'') init_world)))"
  have l: "length (trace ?w4) + 3 = 7" by (simp add: init_world_def)
  have vs: "fst (createShader env VERTEX_SHADER vertCode ?w4) = js_undefined"
    using createShader_failed [of env ?w4] assms(2) unfolding l by simp
  let ?w5 = "snd (createShader env VERTEX_SHADER vertCode ?w4)"
  let ?fs = "fst (createShader env FRAGMENT_SHADER fragCode ?w5)"
  let ?w6 = "snd (createShader env FRAGMENT_SHADER fragCode ?w5)"
  have "GL (AttachShader (CreateProgram_ret env (length (trace ?w6))) js_undefined)
     \<in> set (trace (snd (createProgram env js_undefined ?fs ?w6)))"
    by (rule createProgram_attaches)
  then have "GL (AttachShader (CreateProgram_ret env (length (trace ?w6))) js_undefined)
     \<in> set (trace (main env))"
    using assms(1) vs
    by (simp add: main_def Let_def split_def trace_main_loop_0 gl_GetAttribLocation_def
        gl_GetUniformLocation_def gl_CreateArrayBuffer_def init_world_def)
  then show ?thesis by blast
qed


section \<open>The draw calls\<close>

text \<open>
  C3. In every run in which the context was created, the calls to \<^verbatim>\<open>DrawArrays\<close>,
  whatever their arguments, are exactly fifty, and each of them draws a triangle
  list of 6 vertices starting at vertex 0.
\<close>

theorem fifty_draw_calls:
  assumes "NewContext_err env = None"
  shows "filter is_DrawArrays (gl_calls (trace (main env))) = replicate 50 (DrawArrays TRIANGLES 0 6)"
proof -
  from main_render_calls [OF assms]
  have "filter is_DrawArrays (gl_calls (trace (main env))) =
      map (\<lambda>k. DrawArrays TRIANGLES 0 6) [0..<50]"
    by blast
  then show ?thesis by (simp add: map_replicate_const)
qed

theorem fifty_draw_calls_witness:
  "NewContext_err env_ok = None \<and>
   filter is_DrawArrays (gl_calls (trace (main env_ok))) = replicate 50 (DrawArrays TRIANGLES 0 6)"
  using fifty_draw_calls [of env_ok] by (simp add: env_ok_def)

section \<open>Failing to get a context\<close>

text \<open>
  C7. If the creation of the context fails, the run consists of the calls on the
  canvas, the attempt to create the context and one \<^verbatim>\<open>alert\<close> with the error;
  then it ends. No call reaches the context and no random value is drawn.
\<close>

theorem context_failure_halts:
  assumes "NewContext_err env = Some err"
  shows "trace (main env) =
           [GetElementById ''mycanvas'',
            SetAttribute ''width'' (clientWidth env),
            SetAttribute ''height'' (clientHeight env),
            NewContext False,
            Alert (''Error: '' @ err)] \<and>
         gl_calls (trace (main env)) = [] \<and>
         rand_calls (main env) = 0"
  using assms by (simp add: main_def Let_def init_world_def)

theorem context_failure_halts_witness:
  "NewContext_err env_no_context = Some ''no webgl'' \<and>
   trace (main env_no_context) =
     [GetElementById ''mycanvas'', SetAttribute ''width'' 300, SetAttribute ''height'' 150,
      NewContext False, Alert ''Error: no webgl''] \<and>
   gl_calls (trace (main env_no_context)) = [] \<and>
   rand_calls (main env_no_context) = 0"
  using context_failure_halts [of env_no_context "''no webgl''"]
  by (simp add: env_no_context_def env_ok_def)

section \<open>The sampled rectangles\<close>

lemma rect_params_in_range:
  assumes "Intn_ok env"
  shows "case rect_params env k of (x, y, width, height) \<Rightarrow>
           0 \<le> x \<and> x < 300 \<and> 0 \<le> y \<and> y < 300 \<and>
           0 \<le> width \<and> width < 300 \<and> 0 \<le> height \<and> height < 300"
  using assms by (simp add: rect_params_def Intn_ok_def)

lemma Intn_ok_zero_draw: "Intn_ok env \<Longrightarrow> Intn_ok (zero_draw d env)"
  by (simp add: Intn_ok_def zero_draw_def)

lemma draw_index_mod:
  "Suc (7 * k) mod 7 = 1" "Suc (Suc (7 * k)) mod 7 = 2" "(7 * k + 3) mod 7 = 3"
  by presburger+

lemma rect_params_zero_draw:
  "case rect_params env k of (x, y, width, height) \<Rightarrow>
     rect_params (zero_draw 0 env) k = (0, y, width, height) \<and>
     rect_params (zero_draw 1 env) k = (x, 0, width, height) \<and>
     rect_params (zero_draw 2 env) k = (x, y, 0, height) \<and>
     rect_params (zero_draw 3 env) k = (x, y, width, 0)"
  by (simp add: rect_params_def zero_draw_def draw_index_mod)

text \<open>
  C4. With a random source that keeps the promise of \<^verbatim>\<open>rand.Intn\<close>, the uploads of a
  run are the fifty rectangles of its fifty passes, and in every pass each of x, y,
  width and height lies in \<open>[0, 300)\<close>, so 300 is never among them. The value 0 is:
  making draw number \<open>d\<close> of every pass 0 gives a random source that still keeps the
  promise, for each of the four positions \<open>d\<close>.
\<close>

theorem rectangle_parameters_in_range:
  assumes "NewContext_err env = None" and "Intn_ok env"
  shows "filter is_BufferData (gl_calls (trace (main env))) = map (rect_upload env) [0..<50] \<and>
         (\<forall>k<50. case rect_params env k of (x, y, width, height) \<Rightarrow>
            rect_upload env k =
              BufferData ARRAY_BUFFER
                (positionsNative (float32 env x) (float32 env y) (float32 env width) (float32 env height))
                STATIC_DRAW \<and>
            0 \<le> x \<and> x < 300 \<and> 0 \<le> y \<and> y < 300 \<and>
            0 \<le> width \<and> width < 300 \<and> 0 \<le> height \<and> height < 300) \<and>
         (\<forall>d<4. Intn_ok (zero_draw d env) \<and> NewContext_err (zero_draw d env) = None \<and>
            (\<forall>k<50. case rect_params (zero_draw d env) k of (x, y, width, height) \<Rightarrow>
               [x, y, width, height] ! d = 0))"
proof (intro conjI allI impI)
  from main_render_calls [OF assms(1)]
  show "filter is_BufferData (gl_calls (trace (main env))) = map (rect_upload env) [0..<50]"
    by blast
next
  fix k :: nat
  show "case rect_params env k of (x, y, width, height) \<Rightarrow>
            rect_upload env k =
              BufferData ARRAY_BUFFER
                (positionsNative (float32 env x) (float32 env y) (float32 env width) (float32 env height))
                STATIC_DRAW \<and>
            0 \<le> x \<and> x < 300 \<and> 0 \<le> y \<and> y < 300 \<and>
            0 \<le> width \<and> width < 300 \<and> 0 \<le> height \<and> height < 300"
    using rect_params_in_range [OF assms(2), of k]
    by (simp add: rect_upload_def rect_positions_def split: prod.splits)
next
  fix d :: nat
  show "Intn_ok (zero_draw d env)"
    using assms(2) by (rule Intn_ok_zero_draw)
  show "NewContext_err (zero_draw d env) = None"
    using assms(1) by (simp add: zero_draw_def)
next
  fix d k :: nat
  assume "d < 4"
  then have "d = 0 \<or> d = 1 \<or> d = 2 \<or> d = 3" by arith
  then show "case rect_params (zero_draw d env) k of (x, y, width, height) \<Rightarrow>
      [x, y, width, height] ! d = 0"
    using rect_params_zero_draw [of env k] by (auto split: prod.splits)
qed

lemma Intn_ok_env_ok: "Intn_ok env_ok"
  by (simp add: Intn_ok_def env_ok_def)

theorem rectangle_parameters_in_range_witness:
  "NewContext_err env_ok = None \<and> Intn_ok env_ok \<and>
   filter is_BufferData (gl_calls (trace (main env_ok))) = map (rect_upload env_ok) [0..<50] \<and>
   rect_params env_ok 1 = (259, 296, 33, 70) \<and>
   rect_params (zero_draw 0 env_ok) 1 = (0, 296, 33, 70)"
proof -
  have h: "NewContext_err env_ok = None" by (simp add: env_ok_def)
  from rectangle_parameters_in_range [OF h Intn_ok_env_ok]
  have "filter is_BufferData (gl_calls (trace (main env_ok))) = map (rect_upload env_ok) [0..<50]"
    by blast
  moreover have "rect_params env_ok 1 = (259, 296, 33, 70)"
    by (simp add: rect_params_def env_ok_def)
  moreover have "rect_params (zero_draw 0 env_ok) 1 = (0, 296, 33, 70)"
    by (simp add: rect_params_def env_ok_def zero_draw_def)
  ultimately show ?thesis using h Intn_ok_env_ok by blast
qed


section \<open>The colour uniform\<close>





section \<open>The resolution uniform\<close>



section \<open>The upload\<close>

lemma gl_state_after_snoc [simp]:
  "gl_state_after (t @ [GL c]) = gl_exec (gl_state_after t) c"
  by (simp add: gl_state_after_def)

lemma gl_state_after_append_GL:
  "gl_state_after (t @ map GL cs) = foldl gl_exec (gl_state_after t) cs"
  by (simp add: gl_state_after_def)

text \<open>One pass of the loop, seen from the buffer: the bound buffer gets the rectangle.\<close>

lemma gl_exec_iteration:
  assumes "array_buffer_binding s = js_object b"
  shows "foldl gl_exec s (iteration_calls env cl k) =
           s\<lparr>buffer_store := (buffer_store s)(b := Some (rect_positions env k, STATIC_DRAW))\<rparr>"
  using assms by (simp add: iteration_calls_def rect_upload_def color_write_def split: prod.splits)

lemma gl_exec_iterations_binding:
  assumes "array_buffer_binding s = js_object b"
  shows "array_buffer_binding (foldl gl_exec s (concat (map (iteration_calls env cl) [0..<n]))) =
           js_object b"
proof (induction n)
  case 0
  then show ?case using assms by simp
next
  case (Suc n)
  then show ?case by (simp add: gl_exec_iteration)
qed

lemma gl_exec_iterations_store:
  assumes "array_buffer_binding s = js_object b"
  shows "buffer_store (foldl gl_exec s (concat (map (iteration_calls env cl) [0..<Suc n]))) b =
           Some (rect_positions env n, STATIC_DRAW)"
  using gl_exec_iterations_binding [OF assms, of env cl n] by (simp add: gl_exec_iteration)

lemma concat_map_GL:
  "concat (map (\<lambda>k. map GL (f k)) ks) = map GL (concat (map f ks))"
  by (induction ks) simp_all

text \<open>
  When the loop starts, the buffer bound to \<^verbatim>\<open>ARRAY_BUFFER\<close> is \<^verbatim>\<open>positionBuffer\<close>,
  the answer to \<^verbatim>\<open>CreateArrayBuffer\<close>.
\<close>

lemma main_enters_loop_bound:
  assumes "NewContext_err env = None"
  shows "\<exists>w cl n.
           main env = main_loop env cl 0 w \<and> rand_calls w = 0 \<and>
           array_buffer_binding (gl_state_after (trace w)) = CreateArrayBuffer_ret env n"
  using assms
  apply (simp add: main_def Let_def split_def)
  apply (intro exI conjI)
    apply (rule refl)
   apply (simp add: gl_GetAttribLocation_def gl_GetUniformLocation_def gl_CreateArrayBuffer_def init_world_def)
  apply (simp add: gl_GetAttribLocation_def gl_GetUniformLocation_def gl_CreateArrayBuffer_def
      gl_state_after_def)
  done

lemma main_buffer_after_pass:
  assumes "NewContext_err env = None" and "\<forall>t. \<exists>b. CreateArrayBuffer_ret env t = js_object b"
  shows "\<exists>pre cl b.
           trace (main env) = pre @ concat (map (\<lambda>k. map GL (iteration_calls env cl k)) [0..<50]) \<and>
           array_buffer_binding (gl_state_after pre) = js_object b \<and>
           (\<forall>k<50.
              buffer_store
                (gl_state_after (pre @ concat (map (\<lambda>j. map GL (iteration_calls env cl j)) [0..<Suc k]))) b =
              Some (rect_positions env k, STATIC_DRAW))"
proof -
  from main_enters_loop_bound [OF assms(1)] obtain w cl n where
    m: "main env = main_loop env cl 0 w" and r: "rand_calls w = 0" and
    bd: "array_buffer_binding (gl_state_after (trace w)) = CreateArrayBuffer_ret env n"
    by blast
  from assms(2) obtain b where "CreateArrayBuffer_ret env n = js_object b"
    by blast
  with bd have bd': "array_buffer_binding (gl_state_after (trace w)) = js_object b"
    by simp
  have t: "trace (main env) =
      trace w @ concat (map (\<lambda>k. map GL (iteration_calls env cl k)) [0..<50])"
    unfolding m using r by (rule trace_main_loop_0)
  have st: "buffer_store
      (gl_state_after (trace w @ concat (map (\<lambda>j. map GL (iteration_calls env cl j)) [0..<Suc k]))) b =
      Some (rect_positions env k, STATIC_DRAW)" for k
    unfolding concat_map_GL gl_state_after_append_GL
    by (rule gl_exec_iterations_store [OF bd'])
  show ?thesis
    by (rule exI [of _ "trace w"], rule exI [of _ cl], rule exI [of _ b], intro conjI allI impI)
       (rule t, rule bd', rule st)
qed

text \<open>
  C5. Whenever a buffer is bound to \<^verbatim>\<open>ARRAY_BUFFER\<close>, \<^verbatim>\<open>setRectangle\<close> makes one
  upload: twelve floats, 48 bytes, the six vertices of the rectangle, passed with
  the usage hint \<^verbatim>\<open>STATIC_DRAW\<close>. After it the bound buffer holds these twelve floats
  and nothing of what it held before; the other buffers and the binding are as they
  were. In a run whose context hands out a buffer, that buffer is the bound one when
  the loop starts, and after pass \<open>k\<close> it holds the twelve floats of rectangle \<open>k\<close>.
\<close>

theorem setRectangle_replaces_buffer:
  fixes env :: "'f::{zero,one,plus} env"
  shows "(array_buffer_binding (gl_state_after (trace wld)) = js_object b \<longrightarrow>
          (\<exists>positions.
             positions = SliceToTypedArray (positionsNative x y width height) \<and>
             length positions = 12 \<and> byteLength positions = 48 \<and>
             trace (setRectangle x y width height wld) =
               trace wld @ [GL (BufferData ARRAY_BUFFER positions STATIC_DRAW)] \<and>
             buffer_store (gl_state_after (trace (setRectangle x y width height wld))) =
               (buffer_store (gl_state_after (trace wld)))(b := Some (positions, STATIC_DRAW)) \<and>
             array_buffer_binding (gl_state_after (trace (setRectangle x y width height wld))) =
               js_object b)) \<and>
         (NewContext_err env = None \<and> (\<forall>t. \<exists>b. CreateArrayBuffer_ret env t = js_object b) \<longrightarrow>
          (\<exists>pre colorUniformLocation positionBuffer.
             trace (main env) =
               pre @ concat (map (\<lambda>k. map GL (iteration_calls env colorUniformLocation k)) [0..<50]) \<and>
             array_buffer_binding (gl_state_after pre) = js_object positionBuffer \<and>
             (\<forall>k<50.
                buffer_store
                  (gl_state_after
                    (pre @ concat (map (\<lambda>j. map GL (iteration_calls env colorUniformLocation j)) [0..<Suc k])))
                  positionBuffer =
                Some (rect_positions env k, STATIC_DRAW))))"
proof (intro conjI impI)
  assume "array_buffer_binding (gl_state_after (trace wld)) = js_object b"
  then show "\<exists>positions.
             positions = SliceToTypedArray (positionsNative x y width height) \<and>
             length positions = 12 \<and> byteLength positions = 48 \<and>
             trace (setRectangle x y width height wld) =
               trace wld @ [GL (BufferData ARRAY_BUFFER positions STATIC_DRAW)] \<and>
             buffer_store (gl_state_after (trace (setRectangle x y width height wld))) =
               (buffer_store (gl_state_after (trace wld)))(b := Some (positions, STATIC_DRAW)) \<and>
             array_buffer_binding (gl_state_after (trace (setRectangle x y width height wld))) =
               js_object b"
    by (simp add: setRectangle_def SliceToTypedArray_def positionsNative_def byteLength_def Let_def)
next
  assume "NewContext_err env = None \<and> (\<forall>t. \<exists>b. CreateArrayBuffer_ret env t = js_object b)"
  then show "\<exists>pre colorUniformLocation positionBuffer.
             trace (main env) =
               pre @ concat (map (\<lambda>k. map GL (iteration_calls env colorUniformLocation k)) [0..<50]) \<and>
             array_buffer_binding (gl_state_after pre) = js_object positionBuffer \<and>
             (\<forall>k<50.
                buffer_store
                  (gl_state_after
                    (pre @ concat (map (\<lambda>j. map GL (iteration_calls env colorUniformLocation j)) [0..<Suc k])))
                  positionBuffer =
                Some (rect_positions env k, STATIC_DRAW))"
    using main_buffer_after_pass [of env] by blast
qed

text \<open>
  A buffer of fourteen floats holds the twelve of the rectangle afterwards; and the
  sample run is one whose context hands out a buffer.
\<close>

theorem setRectangle_replaces_buffer_witness:
  "array_buffer_binding (gl_state_after (trace world_used_buffer)) = js_object 1 \<and>
   buffer_store (gl_state_after (trace world_used_buffer)) 1 = Some (replicate 14 9, STATIC_DRAW) \<and>
   buffer_store (gl_state_after (trace (setRectangle 0 0 10 10 world_used_buffer))) 1 =
     Some ([0, 0, 10, 0, 0, 10, 0, 10, 10, 0, 10, 10], STATIC_DRAW) \<and>
   NewContext_err env_ok = None \<and> (\<forall>t. \<exists>b. CreateArrayBuffer_ret env_ok t = js_object b) \<and>
   (\<exists>positionBuffer.
      buffer_store (gl_state_after (trace (main env_ok))) positionBuffer =
        Some (rect_positions env_ok 49, STATIC_DRAW))"
proof -
  have b: "array_buffer_binding (gl_state_after (trace world_used_buffer)) = js_object 1"
    by (simp add: world_used_buffer_def init_world_def gl_state_after_def gl_state0_def)
  have o: "buffer_store (gl_state_after (trace world_used_buffer)) 1 =
      Some (replicate 14 9, STATIC_DRAW)"
    by (simp add: world_used_buffer_def init_world_def gl_state_after_def gl_state0_def)
  note inst = setRectangle_replaces_buffer
    [where env = env_ok and wld = world_used_buffer and b = 1
       and x = 0 and y = 0 and width = 10 and height = 10]
  from inst b obtain positions where
    p: "positions = SliceToTypedArray (positionsNative (0::real) 0 10 10)" and
    st: "buffer_store (gl_state_after (trace (setRectangle 0 0 10 10 world_used_buffer))) =
           (buffer_store (gl_state_after (trace world_used_buffer)))(1 := Some (positions, STATIC_DRAW))"
    by blast
  have "positions = [0, 0, 10, 0, 0, 10, 0, 10, 10, 0, 10, 10]"
    unfolding p by (simp add: SliceToTypedArray_def positionsNative_def Let_def)
  then have n: "buffer_store (gl_state_after (trace (setRectangle 0 0 10 10 world_used_buffer))) 1 =
     Some ([0, 0, 10, 0, 0, 10, 0, 10, 10, 0, 10, 10], STATIC_DRAW)"
    unfolding st by (simp only: fun_upd_same)
  have h: "NewContext_err env_ok = None" by (simp add: env_ok_def)
  have c: "\<forall>t. \<exists>b. CreateArrayBuffer_ret env_ok t = js_object b" by (simp add: env_ok_def)
  from inst h c obtain pre cl pb where
    t: "trace (main env_ok) =
          pre @ concat (map (\<lambda>k. map GL (iteration_calls env_ok cl k)) [0..<50])" and
    a: "\<forall>k<50.
          buffer_store
            (gl_state_after (pre @ concat (map (\<lambda>j. map GL (iteration_calls env_ok cl j)) [0..<Suc k])))
            pb =
          Some (rect_positions env_ok k, STATIC_DRAW)"
    by blast
  have e: "Suc 49 = 50" by simp
  have "(49::nat) < 50" by simp
  with a have "buffer_store
      (gl_state_after (pre @ concat (map (\<lambda>j. map GL (iteration_calls env_ok cl j)) [0..<Suc 49])))
      pb =
      Some (rect_positions env_ok 49, STATIC_DRAW)"
    by blast
  then have "buffer_store (gl_state_after (trace (main env_ok))) pb =
      Some (rect_positions env_ok 49, STATIC_DRAW)"
    unfolding e t .
  then have "\<exists>positionBuffer.
      buffer_store (gl_state_after (trace (main env_ok))) positionBuffer =
        Some (rect_positions env_ok 49, STATIC_DRAW)"
    by (rule exI)
  with b o n h c show ?thesis by blast
qed

section \<open>Compiling a shader\<close>

text \<open>
  C6. \<^verbatim>\<open>createShader\<close> creates a shader, gives it the source, compiles it and asks
  for the compile status. If the status is true it returns the shader it created.
  If not, it asks for the info log, prints it, deletes the shader and returns
  \<^verbatim>\<open>js.Value{}\<close>, the undefined value; it returns in both cases, and as long as
  the context hands out something other than undefined the result tells the two
  cases apart. \<^verbatim>\<open>main\<close> does not
  look at the result: when the vertex shader fails to compile (the status query is
  event number 7 of the run), the undefined value is attached to the program and the
  run still makes its fifty draw calls.
\<close>

theorem createShader_contract:
  fixes env :: "'f::{zero,one,plus} env"
  shows "(let shader = CreateShader_ret env (length (trace w));
              compiling =
                [GL (CreateShader shaderType), GL (ShaderSource shader source),
                 GL (CompileShader shader), GL (GetShaderParameter shader COMPILE_STATUS)]
          in (GetShaderParameter_ret env (length (trace w) + 3) \<longrightarrow>
                fst (createShader env shaderType source w) = shader \<and>
                trace (snd (createShader env shaderType source w)) = trace w @ compiling) \<and>
             (\<not> GetShaderParameter_ret env (length (trace w) + 3) \<longrightarrow>
                fst (createShader env shaderType source w) = js_undefined \<and>
                trace (snd (createShader env shaderType source w)) =
                  trace w @ compiling @
                  [GL (GetShaderInfoLog shader),
                   Println (GetShaderInfoLog_ret env (length (trace w) + 4)),
                   GL (DeleteShader shader)]) \<and>
             (shader \<noteq> js_undefined \<longrightarrow>
                (fst (createShader env shaderType source w) = js_undefined) =
                (\<not> GetShaderParameter_ret env (length (trace w) + 3)))) \<and>
         (NewContext_err env = None \<and> \<not> GetShaderParameter_ret env 7 \<longrightarrow>
            (\<exists>program. GL (AttachShader program js_undefined) \<in> set (trace (main env))) \<and>
            length (filter is_DrawArrays (gl_calls (trace (main env)))) = 50)"
proof (intro conjI impI)
  show "let shader = CreateShader_ret env (length (trace w));
            compiling =
              [GL (CreateShader shaderType), GL (ShaderSource shader source),
               GL (CompileShader shader), GL (GetShaderParameter shader COMPILE_STATUS)]
        in (GetShaderParameter_ret env (length (trace w) + 3) \<longrightarrow>
              fst (createShader env shaderType source w) = shader \<and>
              trace (snd (createShader env shaderType source w)) = trace w @ compiling) \<and>
           (\<not> GetShaderParameter_ret env (length (trace w) + 3) \<longrightarrow>
              fst (createShader env shaderType source w) = js_undefined \<and>
              trace (snd (createShader env shaderType source w)) =
                trace w @ compiling @
                [GL (GetShaderInfoLog shader),
                 Println (GetShaderInfoLog_ret env (length (trace w) + 4)),
                 GL (DeleteShader shader)]) \<and>
           (shader \<noteq> js_undefined \<longrightarrow>
              (fst (createShader env shaderType source w) = js_undefined) =
              (\<not> GetShaderParameter_ret env (length (trace w) + 3)))"
    by (simp add: createShader_def gl_ret_defs Let_def eval_nat_numeral)
next
  assume a: "NewContext_err env = None \<and> \<not> GetShaderParameter_ret env 7"
  then show "\<exists>program. GL (AttachShader program js_undefined) \<in> set (trace (main env))"
    by (simp add: main_attaches_undefined)
  from a main_render_calls [of env]
  have "filter is_DrawArrays (gl_calls (trace (main env))) =
      map (\<lambda>k. DrawArrays TRIANGLES 0 6) [0..<50]"
    by blast
  then show "length (filter is_DrawArrays (gl_calls (trace (main env)))) = 50"
    by simp
qed


theorem createShader_contract_witness:
  "GetShaderParameter_ret env_ok (length (trace (init_world :: real world)) + 3) \<and>
   fst (createShader env_ok VERTEX_SHADER vertCode init_world) = js_object 0 \<and>
   \<not> GetShaderParameter_ret env_bad_shader (length (trace (init_world :: real world)) + 3) \<and>
   fst (createShader env_bad_shader VERTEX_SHADER vertCode init_world) = js_undefined \<and>
   trace (snd (createShader env_bad_shader VERTEX_SHADER vertCode init_world)) =
     [GL (CreateShader VERTEX_SHADER), GL (ShaderSource (js_object 0) vertCode),
      GL (CompileShader (js_object 0)), GL (GetShaderParameter (js_object 0) COMPILE_STATUS),
      GL (GetShaderInfoLog (js_object 0)), Println ''ERROR: 0:1: syntax error'',
      GL (DeleteShader (js_object 0))] \<and>
   NewContext_err env_bad_shader = None \<and> \<not> GetShaderParameter_ret env_bad_shader 7 \<and>
   (\<exists>program. GL (AttachShader program js_undefined) \<in> set (trace (main env_bad_shader))) \<and>
   length (filter is_DrawArrays (gl_calls (trace (main env_bad_shader)))) = 50"
  using createShader_contract [where env = env_ok and w = init_world
      and shaderType = VERTEX_SHADER and source = vertCode]
    createShader_contract [where env = env_bad_shader and w = init_world
      and shaderType = VERTEX_SHADER and source = vertCode]
  by (simp add: Let_def env_ok_def env_bad_shader_def init_world_def)

section \<open>Rectangles without area\<close>

text \<open>
  C10. From any random source that keeps the promise of \<^verbatim>\<open>rand.Intn\<close>, making the
  width draw (or the height draw) of every pass 0 gives a source that keeps it too.
  Under that source every pass uploads, with no check in between, the six vertices
  of a rectangle of width 0 (or height 0): those whose x (or y) coordinates are all
  the same. The third hypothesis is the one fact about \<^verbatim>\<open>float32\<close> used: adding the
  float of 0 to the float of an integer does not change it.
\<close>

theorem degenerate_rectangles_reachable:
  fixes env :: "'f::{zero,one,plus} env"
  assumes "NewContext_err env = None" and "Intn_ok env"
    and "\<forall>n. float32 env n + float32 env 0 = float32 env n"
  shows "Intn_ok (zero_draw 2 env) \<and> NewContext_err (zero_draw 2 env) = None \<and>
         Intn_ok (zero_draw 3 env) \<and> NewContext_err (zero_draw 3 env) = None \<and>
         (\<forall>k<50.
            (let (x, y, width, height) = rect_params env k;
                 X = float32 env x; Y = float32 env y;
                 W = float32 env width; H = float32 env height
             in rect_params (zero_draw 2 env) k = (x, y, 0, height) \<and>
                filter is_BufferData (gl_calls (trace (main (zero_draw 2 env)))) ! k =
                  BufferData ARRAY_BUFFER (positionsNative X Y (float32 env 0) H) STATIC_DRAW \<and>
                vertices (positionsNative X Y (float32 env 0) H) =
                  [(X, Y), (X, Y), (X, Y + H), (X, Y + H), (X, Y), (X, Y + H)] \<and>
                rect_params (zero_draw 3 env) k = (x, y, width, 0) \<and>
                filter is_BufferData (gl_calls (trace (main (zero_draw 3 env)))) ! k =
                  BufferData ARRAY_BUFFER (positionsNative X Y W (float32 env 0)) STATIC_DRAW \<and>
                vertices (positionsNative X Y W (float32 env 0)) =
                  [(X, Y), (X + W, Y), (X, Y), (X, Y), (X + W, Y), (X + W, Y)]))"
proof (intro conjI allI impI)
  show "Intn_ok (zero_draw 2 env)" "Intn_ok (zero_draw 3 env)"
    using assms(2) by (rule Intn_ok_zero_draw)+
  show n2: "NewContext_err (zero_draw 2 env) = None" and n3: "NewContext_err (zero_draw 3 env) = None"
    using assms(1) by (simp_all add: zero_draw_def)
  fix k :: nat
  assume k: "k < 50"
  obtain x y width height where p: "rect_params env k = (x, y, width, height)"
    by (cases "rect_params env k") auto
  have p2: "rect_params (zero_draw 2 env) k = (x, y, 0, height)"
    and p3: "rect_params (zero_draw 3 env) k = (x, y, width, 0)"
    using rect_params_zero_draw [of env k] by (simp_all add: p)
  have f: "float32 (zero_draw d env) = float32 env" for d
    by (simp add: zero_draw_def)
  have u2: "filter is_BufferData (gl_calls (trace (main (zero_draw 2 env)))) ! k =
      rect_upload (zero_draw 2 env) k"
    using main_render_calls [OF n2] k by auto
  have u3: "filter is_BufferData (gl_calls (trace (main (zero_draw 3 env)))) ! k =
      rect_upload (zero_draw 3 env) k"
    using main_render_calls [OF n3] k by auto
  have z: "float32 env x + float32 env 0 = float32 env x"
    "float32 env y + float32 env 0 = float32 env y"
    using assms(3) by simp_all
  show "let (x, y, width, height) = rect_params env k;
            X = float32 env x; Y = float32 env y;
            W = float32 env width; H = float32 env height
        in rect_params (zero_draw 2 env) k = (x, y, 0, height) \<and>
           filter is_BufferData (gl_calls (trace (main (zero_draw 2 env)))) ! k =
             BufferData ARRAY_BUFFER (positionsNative X Y (float32 env 0) H) STATIC_DRAW \<and>
           vertices (positionsNative X Y (float32 env 0) H) =
             [(X, Y), (X, Y), (X, Y + H), (X, Y + H), (X, Y), (X, Y + H)] \<and>
           rect_params (zero_draw 3 env) k = (x, y, width, 0) \<and>
           filter is_BufferData (gl_calls (trace (main (zero_draw 3 env)))) ! k =
             BufferData ARRAY_BUFFER (positionsNative X Y W (float32 env 0)) STATIC_DRAW \<and>
           vertices (positionsNative X Y W (float32 env 0)) =
             [(X, Y), (X + W, Y), (X, Y), (X, Y), (X + W, Y), (X + W, Y)]"
    unfolding p u2 u3
    by (simp add: Let_def p2 p3 rect_upload_def rect_positions_def f positionsNative_def z)
qed

theorem degenerate_rectangles_reachable_witness:
  "NewContext_err env_ok = None \<and> Intn_ok env_ok \<and>
   (\<forall>n. float32 env_ok n + float32 env_ok 0 = float32 env_ok n) \<and>
   Intn_ok (zero_draw 2 env_ok) \<and>
   rect_params env_ok 1 = (259, 296, 33, 70) \<and>
   rect_params (zero_draw 2 env_ok) 1 = (259, 296, 0, 70) \<and>
   filter is_BufferData (gl_calls (trace (main (zero_draw 2 env_ok)))) ! 1 =
     BufferData ARRAY_BUFFER
       [259, 296, 259, 296, 259, 366, 259, 366, 259, 296, 259, 366] STATIC_DRAW"
proof -
  have h: "NewContext_err env_ok = None" by (simp add: env_ok_def)
  have z: "\<forall>n. float32 env_ok n + float32 env_ok 0 = float32 env_ok n"
    by (simp add: env_ok_def)
  have p: "rect_params env_ok 1 = (259, 296, 33, 70)"
    by (simp add: rect_params_def env_ok_def)
  have f: "float32 env_ok = of_int" by (simp add: env_ok_def)
  from degenerate_rectangles_reachable [OF h Intn_ok_env_ok z]
  have ok: "Intn_ok (zero_draw 2 env_ok)" and
    a: "\<forall>k<50.
            (let (x, y, width, height) = rect_params env_ok k;
                 X = float32 env_ok x; Y = float32 env_ok y;
                 W = float32 env_ok width; H = float32 env_ok height
             in rect_params (zero_draw 2 env_ok) k = (x, y, 0, height) \<and>
                filter is_BufferData (gl_calls (trace (main (zero_draw 2 env_ok)))) ! k =
                  BufferData ARRAY_BUFFER (positionsNative X Y (float32 env_ok 0) H) STATIC_DRAW \<and>
                vertices (positionsNative X Y (float32 env_ok 0) H) =
                  [(X, Y), (X, Y), (X, Y + H), (X, Y + H), (X, Y), (X, Y + H)] \<and>
                rect_params (zero_draw 3 env_ok) k = (x, y, width, 0) \<and>
                filter is_BufferData (gl_calls (trace (main (zero_draw 3 env_ok)))) ! k =
                  BufferData ARRAY_BUFFER (positionsNative X Y W (float32 env_ok 0)) STATIC_DRAW \<and>
                vertices (positionsNative X Y W (float32 env_ok 0)) =
                  [(X, Y), (X + W, Y), (X, Y), (X, Y), (X + W, Y), (X + W, Y)])"
    by blast+
  from a have "let (x, y, width, height) = rect_params env_ok 1;
                 X = float32 env_ok x; Y = float32 env_ok y;
                 W = float32 env_ok width; H = float32 env_ok height
             in rect_params (zero_draw 2 env_ok) 1 = (x, y, 0, height) \<and>
                filter is_BufferData (gl_calls (trace (main (zero_draw 2 env_ok)))) ! 1 =
                  BufferData ARRAY_BUFFER (positionsNative X Y (float32 env_ok 0) H) STATIC_DRAW \<and>
                vertices (positionsNative X Y (float32 env_ok 0) H) =
                  [(X, Y), (X, Y), (X, Y + H), (X, Y + H), (X, Y), (X, Y + H)] \<and>
                rect_params (zero_draw 3 env_ok) 1 = (x, y, width, 0) \<and>
                filter is_BufferData (gl_calls (trace (main (zero_draw 3 env_ok)))) ! 1 =
                  BufferData ARRAY_BUFFER (positionsNative X Y W (float32 env_ok 0)) STATIC_DRAW \<and>
                vertices (positionsNative X Y W (float32 env_ok 0)) =
                  [(X, Y), (X + W, Y), (X, Y), (X, Y), (X + W, Y), (X + W, Y)]"
    by simp
  then have "rect_params (zero_draw 2 env_ok) 1 = (259, 296, 0, 70) \<and>
     filter is_BufferData (gl_calls (trace (main (zero_draw 2 env_ok)))) ! 1 =
       BufferData ARRAY_BUFFER
         [259, 296, 259, 296, 259, 366, 259, 366, 259, 296, 259, 366] STATIC_DRAW"
    unfolding p by (simp add: Let_def f positionsNative_def)
  with h Intn_ok_env_ok z ok p show ?thesis by blast
qed

end
